theory Spec2Isabelle
  imports Main "HOL-Library.AList"
begin

section \<open>JavaScript values\<close>

text \<open>
  Token payloads, request bodies, provider replies and stored documents are JSON at run
  time; the TypeScript annotations (\<open>Contact\<close>, \<open>as string\<close>) are erased. An object is
  an association list read with \<open>map_of\<close>. Numbers are kept as integers: the code only
  ever tests a number for being zero. \<open>None\<close> at type \<open>jsvalue\<close> is \<open>undefined\<close>.
\<close>

datatype json =
    JNull
  | JBool bool
  | JNum int
  | JStr string
  | JArr "json list"
  | JObj "(string \<times> json) list"

type_synonym jsvalue = "json option"

text \<open>Everything the code throws, or a library rejects with.\<close>

datatype jose_failure =
    JWTInvalid
  | JWTExpired
  | JWSSignatureVerificationFailed
  | JWKSNoMatchingKey

datatype thrown =
    TypeError
  | MissingEnvironmentVariable string
  | MissingConfiguration
  | UnsupportedAlgorithm "json list"
  | AxiosError "nat option"
  | FirestoreError
  | VerificationError jose_failure
  | InvalidClaims
  | TokenUndefined
  | JwtSecretUndefined

text \<open>\<open>!v\<close> is \<open>\<not> truthy v\<close>.\<close>

fun truthy :: "jsvalue \<Rightarrow> bool" where
  "truthy None = False"
| "truthy (Some JNull) = False"
| "truthy (Some (JBool b)) = b"
| "truthy (Some (JNum n)) = (n \<noteq> 0)"
| "truthy (Some (JStr s)) = (s \<noteq> [])"
| "truthy (Some (JArr xs)) = True"
| "truthy (Some (JObj kvs)) = True"

text \<open>\<open>typeof v === 'string'\<close>.\<close>

fun isString :: "jsvalue \<Rightarrow> bool" where
  "isString (Some (JStr s)) = True"
| "isString v = False"

text \<open>
  \<open>v.k\<close> for the property names the code reads (\<open>sub\<close>, \<open>email\<close>, \<open>alias\<close>, \<open>id\<close>,
  \<open>jwks_uri\<close>, \<open>id_token_signing_alg_values_supported\<close>): reading a property of \<open>null\<close>
  or \<open>undefined\<close> throws a TypeError, an object yields the entry or \<open>undefined\<close>, a
  string, number, boolean or array has no JSON value under these names. (On a string,
  \<open>sub\<close> is a method of the prototype; its \<open>typeof\<close> is not \<open>'string'\<close> either, which is
  all the code asks of it.)
\<close>

fun getProp :: "jsvalue \<Rightarrow> string \<Rightarrow> thrown + jsvalue" where
  "getProp None k = Inl TypeError"
| "getProp (Some JNull) k = Inl TypeError"
| "getProp (Some (JObj kvs)) k = Inr (map_of kvs k)"
| "getProp (Some v) k = Inr None"

text \<open>\<open>s.startsWith(p)\<close>, \<open>s.split(' ')\<close>, \<open>xs[i]\<close> and \<open>s.includes(p)\<close> on strings.\<close>

definition startsWith :: "string \<Rightarrow> string \<Rightarrow> bool" where
  "startsWith s p = (take (length p) s = p)"

fun split :: "char \<Rightarrow> string \<Rightarrow> string list" where
  "split c [] = [] # []"
| "split c (x # xs) =
     (if x = c then [] # split c xs
      else (case split c xs of [] \<Rightarrow> [x] # [] | w # ws \<Rightarrow> (x # w) # ws))"

definition index :: "'a list \<Rightarrow> nat \<Rightarrow> 'a option" where
  "index xs i = (if i < length xs then Some (xs ! i) else None)"

fun includes_str :: "string \<Rightarrow> string \<Rightarrow> bool" where
  "includes_str [] p = (p = [])"
| "includes_str (x # xs) p = (startsWith (x # xs) p \<or> includes_str xs p)"

section \<open>Outbound HTTP (axios)\<close>

text \<open>
  What the remote end did: it answered with a status and a parsed body, or the call never
  got an answer. \<open>axios.get\<close> resolves with the body for a status in 200..299 (the
  default \<open>validateStatus\<close>) and rejects with an AxiosError otherwise; the error carries
  the status when there was an answer.
\<close>

datatype axios_reply = HttpReply nat json | NoReply

fun axios_get :: "axios_reply \<Rightarrow> thrown + json" where
  "axios_get NoReply = Inl (AxiosError None)"
| "axios_get (HttpReply st d) =
     (if 200 \<le> st \<and> st < 300 then Inr d else Inl (AxiosError (Some st)))"

text \<open>\<open>axios.isAxiosError(error) && error.response?.status === 404\<close>.\<close>

fun isAxios404 :: "thrown \<Rightarrow> bool" where
  "isAxios404 (AxiosError (Some st)) = (st = 404)"
| "isAxios404 e = False"

section \<open>Configuration (config.ts)\<close>

type_synonym process_env = "string \<Rightarrow> string option"

datatype port = PortNumber nat | PortString string

text \<open>\<open>!config[secret]\<close>: the variable is unset or the empty string.\<close>

fun missing :: "string option \<Rightarrow> bool" where
  "missing None = True"
| "missing (Some s) = (s = [])"

text \<open>\<open>process.env.PORT || 3001\<close>.\<close>

definition portOrDefault :: "process_env \<Rightarrow> port" where
  "portOrDefault env =
     (if missing (env ''PORT'') then PortNumber 3001 else PortString (the (env ''PORT'')))"

text \<open>
  The loop over \<open>requiredSecrets\<close>: the first missing one throws. The message of the
  source is \<open>FATAL: Missing required environment variable: \<close> followed by the upper-cased
  key; the error here carries the key.
\<close>

fun checkRequired :: "(string \<Rightarrow> string option) \<Rightarrow> string list \<Rightarrow> thrown + unit" where
  "checkRequired field [] = Inr ()"
| "checkRequired field (secret # rest) =
     (if missing (field secret) then Inl (MissingEnvironmentVariable secret)
      else checkRequired field rest)"

subsection \<open>The variant with an internal API key\<close>

record config =
  port :: port
  gcpProjectId :: "string option"
  identityServiceUrl :: "string option"
  internalApiKey :: "string option"

definition readConfig :: "process_env \<Rightarrow> config" where
  "readConfig env =
     \<lparr> port = portOrDefault env,
       gcpProjectId = env ''GCP_PROJECT_ID'',
       identityServiceUrl = env ''IDENTITY_SERVICE_URL'',
       internalApiKey = env ''INTERNAL_API_KEY'' \<rparr>"

definition configField :: "config \<Rightarrow> string \<Rightarrow> string option" where
  "configField c k =
     (if k = ''gcpProjectId'' then gcpProjectId c
      else if k = ''identityServiceUrl'' then identityServiceUrl c
      else if k = ''internalApiKey'' then internalApiKey c
      else None)"

definition requiredSecrets :: "string list" where
  "requiredSecrets = [''gcpProjectId'', ''identityServiceUrl'', ''internalApiKey'']"

definition loadConfig :: "process_env \<Rightarrow> thrown + config" where
  "loadConfig env =
     (let c = readConfig env in
      case checkRequired (configField c) requiredSecrets of
        Inl e \<Rightarrow> Inl e
      | Inr u \<Rightarrow> Inr c)"

subsection \<open>The variant with a shared JWT secret\<close>

record jwt_config =
  jport :: port
  jgcpProjectId :: "string option"
  jwtSecret :: "string option"
  jidentityServiceUrl :: "string option"

definition readJwtConfig :: "process_env \<Rightarrow> jwt_config" where
  "readJwtConfig env =
     \<lparr> jport = portOrDefault env,
       jgcpProjectId = env ''GCP_PROJECT_ID'',
       jwtSecret = env ''JWT_SECRET'',
       jidentityServiceUrl = env ''IDENTITY_SERVICE_URL'' \<rparr>"

definition jwtConfigField :: "jwt_config \<Rightarrow> string \<Rightarrow> string option" where
  "jwtConfigField c k =
     (if k = ''gcpProjectId'' then jgcpProjectId c
      else if k = ''jwtSecret'' then jwtSecret c
      else if k = ''identityServiceUrl'' then jidentityServiceUrl c
      else None)"

definition jwtRequiredSecrets :: "string list" where
  "jwtRequiredSecrets = [''gcpProjectId'', ''jwtSecret'', ''identityServiceUrl'']"

definition loadJwtConfig :: "process_env \<Rightarrow> thrown + jwt_config" where
  "loadJwtConfig env =
     (let c = readJwtConfig env in
      case checkRequired (jwtConfigField c) jwtRequiredSecrets of
        Inl e \<Rightarrow> Inl e
      | Inr u \<Rightarrow> Inr c)"

section \<open>Startup (main.ts, startServer)\<close>

text \<open>
  What startup meets outside the process: the reply to the metadata request, whether
  \<open>db.listCollections()\<close> resolves, and whether \<open>new URL(x)\<close> accepts a value.
\<close>

record startup_world =
  metadataReply :: axios_reply
  listCollectionsOk :: bool
  urlValid :: "jsvalue \<Rightarrow> bool"

datatype startup = Exit nat thrown | Listening port

text \<open>
  Step 2, the algorithm policy: \<open>!supportedAlgs || !supportedAlgs.includes('RS256')\<close>
  throws. Building the message calls \<open>supportedAlgs.join\<close>, which exists on arrays only,
  so every other rejected value ends in a TypeError instead; \<open>includes\<close> exists on arrays
  and strings only.
\<close>

definition requiredAlg :: string where
  "requiredAlg = ''RS256''"

fun checkAlgorithmPolicy :: "jsvalue \<Rightarrow> thrown + unit" where
  "checkAlgorithmPolicy (Some (JArr algs)) =
     (if JStr requiredAlg \<in> set algs then Inr () else Inl (UnsupportedAlgorithm algs))"
| "checkAlgorithmPolicy (Some (JStr s)) =
     (if s \<noteq> [] \<and> includes_str s requiredAlg then Inr () else Inl TypeError)"
| "checkAlgorithmPolicy v = Inl TypeError"

text \<open>Steps 3 to 5: the store connection, the key-set URL, listening.\<close>

definition connectAndListen :: "config \<Rightarrow> startup_world \<Rightarrow> json \<Rightarrow> thrown + port" where
  "connectAndListen cfg w metadata =
     (if \<not> listCollectionsOk w then Inl FirestoreError
      else case getProp (Some metadata) ''jwks_uri'' of
        Inl e \<Rightarrow> Inl e
      | Inr uri \<Rightarrow> if urlValid w uri then Inr (port cfg) else Inl TypeError)"

text \<open>
  The body of the \<open>try\<close>: the configuration test, step 1 (the metadata request), step 2,
  then the rest.
\<close>

definition startServerBody :: "config \<Rightarrow> startup_world \<Rightarrow> thrown + port" where
  "startServerBody cfg w =
     (if missing (gcpProjectId cfg) \<or> missing (identityServiceUrl cfg)
      then Inl MissingConfiguration
      else case axios_get (metadataReply w) of
        Inl e \<Rightarrow> Inl e
      | Inr metadata \<Rightarrow>
          (case getProp (Some metadata) ''id_token_signing_alg_values_supported'' of
             Inl e \<Rightarrow> Inl e
           | Inr supportedAlgs \<Rightarrow>
               (case checkAlgorithmPolicy supportedAlgs of
                  Inl e \<Rightarrow> Inl e
                | Inr u \<Rightarrow> connectAndListen cfg w metadata)))"

text \<open>The \<open>catch\<close> around the whole body logs the error and calls \<open>process.exit(1)\<close>.\<close>

definition startServer :: "config \<Rightarrow> startup_world \<Rightarrow> startup" where
  "startServer cfg w =
     (case startServerBody cfg w of Inl e \<Rightarrow> Exit 1 e | Inr p \<Rightarrow> Listening p)"

text \<open>
  The process: importing config.ts runs the validation, and an error thrown there ends
  the process before \<open>startServer\<close> is reached.
\<close>

datatype process = Crashed thrown | Started startup

definition main :: "process_env \<Rightarrow> startup_world \<Rightarrow> process" where
  "main env w =
     (case loadConfig env of Inl e \<Rightarrow> Crashed e | Inr cfg \<Rightarrow> Started (startServer cfg w))"

section \<open>The document store (internal/firestore.ts)\<close>

text \<open>
  Firestore is a collaborator: a store of documents, each at a path of segments that
  alternate between collection names and document ids, where \<open>set\<close> replaces the
  document at its path and \<open>get\<close> on a collection yields the documents directly in it.
  A document maps field names to values.

  What the client library does with the arguments the code passes is written out, since
  the code passes them unchecked. \<open>doc(x)\<close> on a collection throws unless \<open>x\<close> is a
  non-empty string without \<open>//\<close>; it splits \<open>x\<close> at \<open>/\<close>, drops an empty segment at
  either end, appends the segments to the path of the collection, and throws unless the
  result names a document, that is, has an even number of segments. So \<open>doc('a/b/c')\<close>
  is the document \<open>c\<close> of the sub-collection \<open>b\<close> of the document \<open>a\<close>, and
  \<open>doc('a/b')\<close> throws. \<open>set\<close> throws on an \<open>undefined\<close> field value (main.ts does not
  enable \<open>ignoreUndefinedProperties\<close>). Every other failure of a call (network,
  permissions, validation by the server) is decided by \<open>writeFails\<close> and \<open>readFails\<close>.
\<close>

type_synonym document = "(string \<times> json) list"

type_synonym path = "string list"

record firestore =
  documents :: "(path \<times> document) list"
  writeFails :: "path \<Rightarrow> document \<Rightarrow> bool"
  readFails :: "path \<Rightarrow> bool"

fun validateResourcePath :: "jsvalue \<Rightarrow> thrown + string" where
  "validateResourcePath (Some (JStr s)) =
     (if s = [] \<or> includes_str s ''//'' then Inl FirestoreError else Inr s)"
| "validateResourcePath v = Inl FirestoreError"

definition pathSegments :: "string \<Rightarrow> string list" where
  "pathSegments s = filter (\<lambda>segment. segment \<noteq> []) (split CHR ''/'' s)"

text \<open>\<open>parent.collection(name)\<close>, for the two literal names of the code, and \<open>coll.doc(x)\<close>.\<close>

definition collectionRef :: "path \<Rightarrow> string \<Rightarrow> path" where
  "collectionRef parent name = parent @ [name]"

definition docRef :: "path \<Rightarrow> jsvalue \<Rightarrow> thrown + path" where
  "docRef coll documentPath =
     (case validateResourcePath documentPath of
        Inl e \<Rightarrow> Inl e
      | Inr s \<Rightarrow>
          let p = coll @ pathSegments s in
          if p \<noteq> [] \<and> even (length p) then Inr p else Inl FirestoreError)"

text \<open>\<open>coll.get()\<close>: the documents whose path is that of the collection and one id.\<close>

definition docsIn :: "firestore \<Rightarrow> path \<Rightarrow> (path \<times> document) list" where
  "docsIn db coll =
     filter (\<lambda>doc. length (fst doc) = Suc (length coll) \<and> take (length coll) (fst doc) = coll)
       (documents db)"

fun definedFields :: "(string \<times> jsvalue) list \<Rightarrow> thrown + document" where
  "definedFields [] = Inr []"
| "definedFields ((k, None) # rest) = Inl FirestoreError"
| "definedFields ((k, Some v) # rest) =
     (case definedFields rest of Inl e \<Rightarrow> Inl e | Inr d \<Rightarrow> Inr ((k, v) # d))"

text \<open>\<open>ref.set(data)\<close> on the document at path \<open>p\<close>.\<close>

definition setDoc :: "firestore \<Rightarrow> path \<Rightarrow> (string \<times> jsvalue) list \<Rightarrow> thrown + firestore" where
  "setDoc db p data =
     (case definedFields data of
        Inl e \<Rightarrow> Inl e
      | Inr d \<Rightarrow>
          if writeFails db p d then Inl FirestoreError
          else Inr (db\<lparr>documents := AList.update p d (documents db)\<rparr>))"

record contact =
  id' :: jsvalue
  email :: jsvalue
  alias' :: jsvalue

definition toContact :: "path \<times> document \<Rightarrow> contact" where
  "toContact doc =
     (let data = snd doc in
      \<lparr> id' = map_of data ''userId'', email = map_of data ''email'',
        alias' = map_of data ''alias'' \<rparr>)"

definition getUserAddressBook :: "firestore \<Rightarrow> jsvalue \<Rightarrow> thrown + contact list" where
  "getUserAddressBook db userId =
     (case docRef (collectionRef [] ''authorized_users'') userId of
        Inl e \<Rightarrow> Inl e
      | Inr user \<Rightarrow>
          let address_book = collectionRef user ''address_book'' in
          if readFails db address_book then Inl FirestoreError
          else let docs = docsIn db address_book in
            if docs = [] then Inr [] else Inr (map toContact docs))"

definition addContactToAddressBook :: "firestore \<Rightarrow> jsvalue \<Rightarrow> json \<Rightarrow> thrown + firestore" where
  "addContactToAddressBook db ownerId contactToAdd =
     (case docRef (collectionRef [] ''authorized_users'') ownerId of
        Inl e \<Rightarrow> Inl e
      | Inr owner \<Rightarrow>
          (case getProp (Some contactToAdd) ''id'' of
             Inl e \<Rightarrow> Inl e
           | Inr cid \<Rightarrow>
               (case docRef (collectionRef owner ''address_book'') cid of
                  Inl e \<Rightarrow> Inl e
                | Inr p \<Rightarrow>
                    (case getProp (Some contactToAdd) ''alias'' of
                       Inl e \<Rightarrow> Inl e
                     | Inr al \<Rightarrow>
                         (case getProp (Some contactToAdd) ''email'' of
                            Inl e \<Rightarrow> Inl e
                          | Inr em \<Rightarrow>
                              setDoc db p
                                [(''alias'', al), (''email'', em), (''userId'', cid)])))))"

section \<open>Requests, responses and what a request touches\<close>

record request =
  authorization :: "string option"
  body :: jsvalue

datatype reply_body = ErrorBody string | ContactList "contact list" | Echo json

datatype response = Response nat reply_body

datatype credential = InternalApiKey "string option" | ForwardedAuthorization "string option"

datatype event =
    VerifierCalled string
  | ProviderLookup json credential
  | StoreRead jsvalue
  | StoreWrite jsvalue json
  | ConsoleError thrown

fun isVerifierCall :: "event \<Rightarrow> bool" where
  "isVerifierCall (VerifierCalled t) = True"
| "isVerifierCall e = False"

fun isProviderCall :: "event \<Rightarrow> bool" where
  "isProviderCall (ProviderLookup em c) = True"
| "isProviderCall e = False"

fun isStoreCall :: "event \<Rightarrow> bool" where
  "isStoreCall (StoreRead u) = True"
| "isStoreCall (StoreWrite u c) = True"
| "isStoreCall e = False"

section \<open>The Auth Gate (internal/auth/auth.middleware.ts)\<close>

datatype gate = Next contact | Answer response | Throws thrown

definition unauthorized :: "string \<Rightarrow> response" where
  "unauthorized msg = Response 401 (ErrorBody msg)"

definition invalidOrExpired :: response where
  "invalidOrExpired = unauthorized ''Unauthorized: Invalid or expired token.''"

subsection \<open>createAuthMiddleware: tokens verified against the remote key set\<close>

text \<open>
  The body of the \<open>try\<close> after \<open>jwtVerify\<close> has returned a payload: the claims test and
  the user object.
\<close>

definition userFromPayload :: "json \<Rightarrow> thrown + contact" where
  "userFromPayload payload =
     (case getProp (Some payload) ''sub'' of
        Inl e \<Rightarrow> Inl e
      | Inr sub \<Rightarrow>
          (case getProp (Some payload) ''email'' of
             Inl e \<Rightarrow> Inl e
           | Inr em \<Rightarrow>
               (case getProp (Some payload) ''alias'' of
                  Inl e \<Rightarrow> Inl e
                | Inr al \<Rightarrow>
                    if \<not> isString sub \<or> \<not> truthy em \<or> \<not> truthy al then Inl InvalidClaims
                    else Inr \<lparr> id' = sub, email = em, alias' = al \<rparr>)))"

text \<open>
  \<open>jwtVerify\<close> stands for \<open>jose.jwtVerify(token, jwksClient)\<close>: signature, key lookup
  and time bounds are the library's, and its verdict on a token is an input here.
\<close>

definition createAuthMiddleware :: "(string \<Rightarrow> thrown + json) \<Rightarrow> request \<Rightarrow> gate \<times> event list" where
  "createAuthMiddleware jwtVerify req =
     (case authorization req of
        None \<Rightarrow> (Answer (unauthorized ''Unauthorized: No or invalid token provided.''), [])
      | Some authHeader \<Rightarrow>
          if authHeader = [] \<or> \<not> startsWith authHeader ''Bearer ''
          then (Answer (unauthorized ''Unauthorized: No or invalid token provided.''), [])
          else (case index (split CHR '' '' authHeader) 1 of
                  None \<Rightarrow> (Answer (unauthorized ''Unauthorized: Token is missing.''), [])
                | Some token \<Rightarrow>
                    if token = []
                    then (Answer (unauthorized ''Unauthorized: Token is missing.''), [])
                    else (case jwtVerify token of
                            Inl e \<Rightarrow>
                              (Answer invalidOrExpired, [VerifierCalled token, ConsoleError e])
                          | Inr payload \<Rightarrow>
                              (case userFromPayload payload of
                                 Inl e \<Rightarrow>
                                   (Answer invalidOrExpired,
                                    [VerifierCalled token, ConsoleError e])
                               | Inr user \<Rightarrow> (Next user, [VerifierCalled token])))))"

subsection \<open>authMiddleware: tokens verified with the shared secret\<close>

definition jwtUserFromPayload :: "json \<Rightarrow> thrown + contact" where
  "jwtUserFromPayload decodedPayload =
     (case getProp (Some decodedPayload) ''sub'' of
        Inl e \<Rightarrow> Inl e
      | Inr sub \<Rightarrow>
          if \<not> isString sub then Inl InvalidClaims
          else (case getProp (Some decodedPayload) ''email'' of
                  Inl e \<Rightarrow> Inl e
                | Inr em \<Rightarrow>
                    (case getProp (Some decodedPayload) ''alias'' of
                       Inl e \<Rightarrow> Inl e
                     | Inr al \<Rightarrow> Inr \<lparr> id' = sub, email = em, alias' = al \<rparr>)))"

text \<open>
  \<open>jwtVerify\<close> stands for \<open>jwt.verify(token, config.jwtSecret)\<close>. The two \<open>throw\<close>s before
  the \<open>try\<close> leave the middleware as exceptions.
\<close>

definition authMiddleware :: "jwt_config \<Rightarrow> (string \<Rightarrow> string \<Rightarrow> thrown + json) \<Rightarrow> request \<Rightarrow> gate \<times> event list" where
  "authMiddleware cfg jwtVerify req =
     (case authorization req of
        None \<Rightarrow> (Answer (unauthorized ''Unauthorized: No token provided.''), [])
      | Some authHeader \<Rightarrow>
          if authHeader = [] \<or> \<not> startsWith authHeader ''Bearer ''
          then (Answer (unauthorized ''Unauthorized: No token provided.''), [])
          else (case index (split CHR '' '' authHeader) 1 of
                  None \<Rightarrow> (Throws TokenUndefined, [])
                | Some token \<Rightarrow>
                    (case jwtSecret cfg of
                       None \<Rightarrow> (Throws JwtSecretUndefined, [])
                     | Some secret \<Rightarrow>
                         (case jwtVerify token secret of
                            Inl e \<Rightarrow>
                              (Answer invalidOrExpired, [VerifierCalled token, ConsoleError e])
                          | Inr decodedPayload \<Rightarrow>
                              (case jwtUserFromPayload decodedPayload of
                                 Inl e \<Rightarrow>
                                   (Answer invalidOrExpired,
                                    [VerifierCalled token, ConsoleError e])
                               | Inr user \<Rightarrow> (Next user, [VerifierCalled token]))))))"

section \<open>Routes (main.ts)\<close>

text \<open>
  A route either answers or lets an exception escape the handler. Its result is the
  outcome, the store afterwards, and the calls it made in order.
\<close>

datatype outcome = Answered response | Unhandled thrown

type_synonym result = "outcome \<times> firestore \<times> event list"

text \<open>What the remote services do for a request.\<close>

record services =
  jwtVerify :: "string \<Rightarrow> thrown + json"
  lookupByEmail :: "json \<Rightarrow> axios_reply"

text \<open>The \<open>catch\<close> of both add-contact handlers.\<close>

definition addContactFailed :: "thrown \<Rightarrow> response \<times> event list" where
  "addContactFailed e =
     (if isAxios404 e then (Response 404 (ErrorBody ''User with that email not found.''), [])
      else (Response 500 (ErrorBody ''An internal error occurred while adding the contact.''),
            [ConsoleError e]))"

subsection \<open>The routes behind createAuthMiddleware\<close>

text \<open>\<open>GET /api/address-book\<close>; \<open>res.json\<close> answers with status 200.\<close>

definition getAddressBook :: "firestore \<Rightarrow> contact \<Rightarrow> response \<times> event list" where
  "getAddressBook db user =
     (case getUserAddressBook db (id' user) of
        Inr addressBook \<Rightarrow> (Response 200 (ContactList addressBook), [StoreRead (id' user)])
      | Inl e \<Rightarrow>
          (Response 500 (ErrorBody ''An internal error occurred.''),
           [StoreRead (id' user), ConsoleError e]))"

text \<open>
  The part both add-contact handlers share, inside their \<open>try\<close>: the lookup at the
  identity service, the store write, and the 201 that echoes the looked-up record;
  \<open>called\<close> holds the lookup event, which carries the credential the handler sends.
\<close>

definition lookupAndStore :: "firestore \<Rightarrow> contact \<Rightarrow> axios_reply \<Rightarrow> event list \<Rightarrow> result" where
  "lookupAndStore db owner reply called =
     (case axios_get reply of
        Inl e \<Rightarrow>
          (Answered (fst (addContactFailed e)), db, called @ snd (addContactFailed e))
      | Inr contactToAdd \<Rightarrow>
          (case addContactToAddressBook db (id' owner) contactToAdd of
             Inl e \<Rightarrow>
               (Answered (fst (addContactFailed e)), db,
                called @ [StoreWrite (id' owner) contactToAdd] @ snd (addContactFailed e))
           | Inr db' \<Rightarrow>
               (Answered (Response 201 (Echo contactToAdd)), db',
                called @ [StoreWrite (id' owner) contactToAdd])))"

text \<open>
  \<open>POST /api/address-book/contacts\<close>. The destructuring of \<open>req.body\<close> and the test of
  \<open>email\<close> come before the \<open>try\<close>.
\<close>

definition addContact :: "config \<Rightarrow> services \<Rightarrow> firestore \<Rightarrow> contact \<Rightarrow> request \<Rightarrow> result" where
  "addContact cfg sv db owner req =
     (case getProp (body req) ''email'' of
        Inl e \<Rightarrow> (Unhandled e, db, [])
      | Inr None \<Rightarrow> (Answered (Response 400 (ErrorBody ''Email is required.'')), db, [])
      | Inr (Some em) \<Rightarrow>
          if \<not> truthy (Some em)
          then (Answered (Response 400 (ErrorBody ''Email is required.'')), db, [])
          else lookupAndStore db owner (lookupByEmail sv em)
                 [ProviderLookup em (InternalApiKey (internalApiKey cfg))])"

definition GET_address_book :: "services \<Rightarrow> firestore \<Rightarrow> request \<Rightarrow> result" where
  "GET_address_book sv db req =
     (case createAuthMiddleware (jwtVerify sv) req of
        (Answer r, called) \<Rightarrow> (Answered r, db, called)
      | (Throws e, called) \<Rightarrow> (Unhandled e, db, called)
      | (Next user, called) \<Rightarrow>
          (Answered (fst (getAddressBook db user)), db, called @ snd (getAddressBook db user)))"

definition POST_address_book_contacts :: "config \<Rightarrow> services \<Rightarrow> firestore \<Rightarrow> request \<Rightarrow> result" where
  "POST_address_book_contacts cfg sv db req =
     (case createAuthMiddleware (jwtVerify sv) req of
        (Answer r, called) \<Rightarrow> (Answered r, db, called)
      | (Throws e, called) \<Rightarrow> (Unhandled e, db, called)
      | (Next owner, called) \<Rightarrow>
          (case addContact cfg sv db owner req of
             (out, db', called') \<Rightarrow> (out, db', called @ called')))"

subsection \<open>The add-contact route behind authMiddleware\<close>

text \<open>
  \<open>POST /api/address-book\<close>. Here the whole handler body is inside the \<open>try\<close>, and the
  caller's own Authorization header is forwarded to the identity service.
\<close>

definition jwtAddContact :: "(json \<Rightarrow> axios_reply) \<Rightarrow> firestore \<Rightarrow> contact \<Rightarrow> request \<Rightarrow> result" where
  "jwtAddContact lookup db owner req =
     (case getProp (body req) ''email'' of
        Inl e \<Rightarrow> (Answered (fst (addContactFailed e)), db, snd (addContactFailed e))
      | Inr None \<Rightarrow> (Answered (Response 400 (ErrorBody ''Email is required.'')), db, [])
      | Inr (Some contactEmail) \<Rightarrow>
          if \<not> truthy (Some contactEmail)
          then (Answered (Response 400 (ErrorBody ''Email is required.'')), db, [])
          else lookupAndStore db owner (lookup contactEmail)
                 [ProviderLookup contactEmail (ForwardedAuthorization (authorization req))])"

definition POST_address_book :: "jwt_config \<Rightarrow> (string \<Rightarrow> string \<Rightarrow> thrown + json) \<Rightarrow> (json \<Rightarrow> axios_reply) \<Rightarrow> firestore \<Rightarrow> request \<Rightarrow> result" where
  "POST_address_book cfg verify lookup db req =
     (case authMiddleware cfg verify req of
        (Answer r, called) \<Rightarrow> (Answered r, db, called)
      | (Throws e, called) \<Rightarrow> (Unhandled e, db, called)
      | (Next owner, called) \<Rightarrow>
          (case jwtAddContact lookup db owner req of
             (out, db', called') \<Rightarrow> (out, db', called @ called')))"

section \<open>Collaborators used in the examples\<close>

text \<open>
  A store with no documents whose backend answers every call; a verifier, a shared-secret
  verifier and an identity service given by a table of their answers (an unlisted token
  is malformed, an unlisted email gets no reply).
\<close>

definition emptyStore :: firestore where
  "emptyStore =
     \<lparr> documents = [], writeFails = (\<lambda>p d. False), readFails = (\<lambda>p. False) \<rparr>"

definition verdicts :: "(string \<times> (thrown + json)) list \<Rightarrow> string \<Rightarrow> thrown + json" where
  "verdicts tbl token =
     (case map_of tbl token of None \<Rightarrow> Inl (VerificationError JWTInvalid) | Some v \<Rightarrow> v)"

definition jwtVerdicts :: "(string \<times> (thrown + json)) list \<Rightarrow> string \<Rightarrow> string \<Rightarrow> thrown + json" where
  "jwtVerdicts tbl token secret = verdicts tbl token"

definition replies :: "(json \<times> axios_reply) list \<Rightarrow> json \<Rightarrow> axios_reply" where
  "replies tbl em = (case map_of tbl em of None \<Rightarrow> NoReply | Some r \<Rightarrow> r)"

text \<open>
  A complete configuration, and a world in which the identity service publishes the given
  algorithm list, the store connects and any string parses as a URL.
\<close>

definition demoEnv :: process_env where
  "demoEnv =
     map_of [(''GCP_PROJECT_ID'', ''demo''), (''IDENTITY_SERVICE_URL'', ''http://id''),
             (''INTERNAL_API_KEY'', ''k1'')]"

definition demoJwtEnv :: process_env where
  "demoJwtEnv =
     map_of [(''GCP_PROJECT_ID'', ''demo''), (''JWT_SECRET'', ''s3cret''),
             (''IDENTITY_SERVICE_URL'', ''http://id'')]"

definition demoConfig :: config where
  "demoConfig =
     \<lparr> port = PortNumber 3001, gcpProjectId = Some ''demo'',
       identityServiceUrl = Some ''http://id'', internalApiKey = Some ''k1'' \<rparr>"

definition demoMetadata :: "json list \<Rightarrow> json" where
  "demoMetadata algs =
     JObj [(''id_token_signing_alg_values_supported'', JArr algs),
           (''jwks_uri'', JStr ''http://id/jwks'')]"

definition demoWorld :: "json list \<Rightarrow> startup_world" where
  "demoWorld algs =
     \<lparr> metadataReply = HttpReply 200 (demoMetadata algs), listCollectionsOk = True,
       urlValid = isString \<rparr>"

definition demoJwtConfig :: jwt_config where
  "demoJwtConfig =
     \<lparr> jport = PortNumber 3001, jgcpProjectId = Some ''demo'', jwtSecret = Some ''s3cret'',
       jidentityServiceUrl = Some ''http://id'' \<rparr>"

text \<open>
  A verifier that accepts the token \<open>good\<close> of user \<open>u1\<close> and rejects four others, each
  for its own reason; the last carries a payload without \<open>sub\<close>. \<open>bearer t\<close> is a
  request presenting the token \<open>t\<close>.
\<close>

definition demoPayload :: json where
  "demoPayload =
     JObj [(''sub'', JStr ''u1''), (''email'', JStr ''me@example.com''), (''alias'', JStr ''Me'')]"

definition demoVerdicts :: "(string \<times> (thrown + json)) list" where
  "demoVerdicts =
     [(''good'', Inr demoPayload),
      (''expired'', Inl (VerificationError JWTExpired)),
      (''forged'', Inl (VerificationError JWSSignatureVerificationFailed)),
      (''rotated'', Inl (VerificationError JWKSNoMatchingKey)),
      (''nosub'', Inr (JObj [(''email'', JStr ''me@example.com''), (''alias'', JStr ''Me'')]))]"

definition bearer :: "string \<Rightarrow> request" where
  "bearer t = \<lparr> authorization = Some (''Bearer '' @ t), body = None \<rparr>"

text \<open>
  The record the identity service holds for \<open>a@example.com\<close>, under a given alias, and
  the authenticated caller \<open>u1\<close>.
\<close>

definition demoContact :: "string \<Rightarrow> json" where
  "demoContact al =
     JObj [(''id'', JStr ''u2''), (''email'', JStr ''a@example.com''), (''alias'', JStr al)]"

definition demoDocument :: "string \<Rightarrow> document" where
  "demoDocument al =
     [(''alias'', JStr al), (''email'', JStr ''a@example.com''), (''userId'', JStr ''u2'')]"

definition demoOwner :: contact where
  "demoOwner =
     \<lparr> id' = Some (JStr ''u1''), email = Some (JStr ''me@example.com''),
       alias' = Some (JStr ''Me'') \<rparr>"

text \<open>
  The path of the document that holds the record of \<open>a@example.com\<close> in the address
  book of \<open>u1\<close>, and a record whose id contains slashes, with the path it is written to.
\<close>

definition demoPath :: path where
  "demoPath = [''authorized_users'', ''u1'', ''address_book'', ''u2'']"

definition slashContact :: json where
  "slashContact =
     JObj [(''id'', JStr ''a/b/c''), (''email'', JStr ''s@example.com''), (''alias'', JStr ''S'')]"

definition slashDocument :: document where
  "slashDocument =
     [(''alias'', JStr ''S''), (''email'', JStr ''s@example.com''), (''userId'', JStr ''a/b/c'')]"

definition slashPath :: path where
  "slashPath = [''authorized_users'', ''u1'', ''address_book'', ''a'', ''b'', ''c'']"

text \<open>
  An identity service that knows \<open>a@example.com\<close>, answers 404 for
  \<open>missing@example.com\<close>, 503 for \<open>down@example.com\<close>, a record without alias
  for \<open>partial@example.com\<close> and the record with slashes in its id for
  \<open>s@example.com\<close>; \<open>postEmail e\<close> is the
  caller \<open>u1\<close> posting the body \<open>{email: e}\<close>, \<open>postBody b\<close> the same caller posting
  \<open>b\<close>.
\<close>

definition demoServices :: services where
  "demoServices =
     \<lparr> jwtVerify = verdicts demoVerdicts,
       lookupByEmail = replies
         [(JStr ''a@example.com'', HttpReply 200 (demoContact ''A'')),
          (JStr ''missing@example.com'', HttpReply 404 (JObj [])),
          (JStr ''down@example.com'', HttpReply 503 JNull),
          (JStr ''partial@example.com'',
           HttpReply 200 (JObj [(''id'', JStr ''u3''), (''email'', JStr ''partial@example.com'')])),
          (JStr ''s@example.com'', HttpReply 200 slashContact)] \<rparr>"

definition postBody :: "json \<Rightarrow> request" where
  "postBody b = \<lparr> authorization = Some ''Bearer good'', body = Some b \<rparr>"

definition postEmail :: "string \<Rightarrow> request" where
  "postEmail e = postBody (JObj [(''email'', JStr e)])"

text \<open>The same record with a field the store has no use for.\<close>

definition demoContactWithPhone :: json where
  "demoContactWithPhone =
     JObj [(''id'', JStr ''u2''), (''email'', JStr ''a@example.com''), (''alias'', JStr ''A''),
           (''phone'', JStr ''555-0100'')]"

section \<open>Notions used to state the properties\<close>


section \<open>Configuration: what is required to start\<close>

lemma configField_readConfig:
  "configField (readConfig env) ''gcpProjectId'' = env ''GCP_PROJECT_ID''"
  "configField (readConfig env) ''identityServiceUrl'' = env ''IDENTITY_SERVICE_URL''"
  "configField (readConfig env) ''internalApiKey'' = env ''INTERNAL_API_KEY''"
  by (simp_all add: configField_def readConfig_def)

lemma jwtConfigField_readJwtConfig:
  "jwtConfigField (readJwtConfig env) ''gcpProjectId'' = env ''GCP_PROJECT_ID''"
  "jwtConfigField (readJwtConfig env) ''jwtSecret'' = env ''JWT_SECRET''"
  "jwtConfigField (readJwtConfig env) ''identityServiceUrl'' = env ''IDENTITY_SERVICE_URL''"
  by (simp_all add: jwtConfigField_def readJwtConfig_def)

lemma loadConfig_unfold:
  "loadConfig env =
     (if missing (env ''GCP_PROJECT_ID'') then Inl (MissingEnvironmentVariable ''gcpProjectId'')
      else if missing (env ''IDENTITY_SERVICE_URL'')
        then Inl (MissingEnvironmentVariable ''identityServiceUrl'')
      else if missing (env ''INTERNAL_API_KEY'')
        then Inl (MissingEnvironmentVariable ''internalApiKey'')
      else Inr (readConfig env))"
  by (simp add: loadConfig_def Let_def requiredSecrets_def configField_readConfig)

lemma loadJwtConfig_unfold:
  "loadJwtConfig env =
     (if missing (env ''GCP_PROJECT_ID'') then Inl (MissingEnvironmentVariable ''gcpProjectId'')
      else if missing (env ''JWT_SECRET'') then Inl (MissingEnvironmentVariable ''jwtSecret'')
      else if missing (env ''IDENTITY_SERVICE_URL'')
        then Inl (MissingEnvironmentVariable ''identityServiceUrl'')
      else Inr (readJwtConfig env))"
  by (simp add: loadJwtConfig_def Let_def jwtRequiredSecrets_def jwtConfigField_readJwtConfig)

text \<open>
  C9, as the spec states it: the process fails to start when the listening port is absent,
  the port being one of the required values. It does not: with the three secrets set and
  no \<open>PORT\<close>, the configuration loads and the server listens on 3001.
\<close>

theorem config_port_counterexample:
  "missing (demoEnv ''PORT'') \<and> main demoEnv (demoWorld [JStr ''RS256'']) = Started (Listening (PortNumber 3001))"
  by (simp add: demoEnv_def demoWorld_def demoMetadata_def main_def loadConfig_unfold
      readConfig_def portOrDefault_def startServer_def startServerBody_def
      connectAndListen_def requiredAlg_def)

text \<open>
  C9, amended: loading the configuration throws, so that the process ends before
  \<open>startServer\<close>, whenever the project identifier, the identity-provider base URL or the
  variant's secret (the internal API key; in the shared-secret variant the JWT secret) is
  unset or empty, and it succeeds when all three are set. The listening port is not
  required: unset or empty, it becomes 3001.
\<close>

theorem config_required_values:
  "(missing (env ''GCP_PROJECT_ID'') \<or> missing (env ''IDENTITY_SERVICE_URL'')
      \<or> missing (env ''INTERNAL_API_KEY'')
    \<longrightarrow> (\<exists>k \<in> set requiredSecrets. loadConfig env = Inl (MissingEnvironmentVariable k)
           \<and> main env w = Crashed (MissingEnvironmentVariable k)))
   \<and> (\<not> missing (env ''GCP_PROJECT_ID'') \<and> \<not> missing (env ''IDENTITY_SERVICE_URL'')
      \<and> \<not> missing (env ''INTERNAL_API_KEY'')
    \<longrightarrow> loadConfig env = Inr (readConfig env)
        \<and> main env w = Started (startServer (readConfig env) w))
   \<and> (missing (env ''GCP_PROJECT_ID'') \<or> missing (env ''JWT_SECRET'')
      \<or> missing (env ''IDENTITY_SERVICE_URL'')
    \<longrightarrow> (\<exists>k \<in> set jwtRequiredSecrets. loadJwtConfig env = Inl (MissingEnvironmentVariable k)))
   \<and> (\<not> missing (env ''GCP_PROJECT_ID'') \<and> \<not> missing (env ''JWT_SECRET'')
      \<and> \<not> missing (env ''IDENTITY_SERVICE_URL'')
    \<longrightarrow> loadJwtConfig env = Inr (readJwtConfig env))
   \<and> (missing (env ''PORT'')
    \<longrightarrow> port (readConfig env) = PortNumber 3001 \<and> jport (readJwtConfig env) = PortNumber 3001)"
  by (simp add: loadConfig_unfold loadJwtConfig_unfold main_def requiredSecrets_def
        jwtRequiredSecrets_def readConfig_def readJwtConfig_def portOrDefault_def)

theorem config_required_values_witness:
  "missing (map_of [(''GCP_PROJECT_ID'', ''demo''), (''IDENTITY_SERVICE_URL'', ''http://id'')]
      ''INTERNAL_API_KEY'')
   \<and> (\<exists>k \<in> set requiredSecrets.
        main (map_of [(''GCP_PROJECT_ID'', ''demo''), (''IDENTITY_SERVICE_URL'', ''http://id'')])
          (demoWorld [JStr ''RS256''])
        = Crashed (MissingEnvironmentVariable k))
   \<and> loadConfig demoEnv = Inr (readConfig demoEnv)
   \<and> missing (demoEnv ''PORT'') \<and> port (readConfig demoEnv) = PortNumber 3001
   \<and> missing (demoEnv ''JWT_SECRET'')
   \<and> (\<exists>k \<in> set jwtRequiredSecrets. loadJwtConfig demoEnv = Inl (MissingEnvironmentVariable k))
   \<and> loadJwtConfig demoJwtEnv = Inr (readJwtConfig demoJwtEnv)"
proof -
  have h: "missing (map_of [(''GCP_PROJECT_ID'', ''demo''),
             (''IDENTITY_SERVICE_URL'', ''http://id'')] ''INTERNAL_API_KEY'')"
    by simp
  have d: "\<not> missing (demoEnv ''GCP_PROJECT_ID'')" "\<not> missing (demoEnv ''IDENTITY_SERVICE_URL'')"
    "\<not> missing (demoEnv ''INTERNAL_API_KEY'')" "missing (demoEnv ''PORT'')"
    "missing (demoEnv ''JWT_SECRET'')"
    by (simp_all add: demoEnv_def)
  have j: "\<not> missing (demoJwtEnv ''GCP_PROJECT_ID'')"
    "\<not> missing (demoJwtEnv ''IDENTITY_SERVICE_URL'')" "\<not> missing (demoJwtEnv ''JWT_SECRET'')"
    by (simp_all add: demoJwtEnv_def)
  from h d j
    config_required_values
      [of "map_of [(''GCP_PROJECT_ID'', ''demo''), (''IDENTITY_SERVICE_URL'', ''http://id'')]"
          "demoWorld [JStr ''RS256'']"]
    config_required_values [of demoEnv "demoWorld [JStr ''RS256'']"]
    config_required_values [of demoJwtEnv "demoWorld [JStr ''RS256'']"]
  show ?thesis by blast
qed

section \<open>Startup: the algorithm policy\<close>

text \<open>
  C3: when the metadata of the identity provider lists the supported algorithms and the
  list contains \<open>RS256\<close>, the policy check passes and startup goes on to the store
  connection and to listening; when the list does not contain \<open>RS256\<close>, startup ends in
  \<open>process.exit(1)\<close> and never listens.
\<close>

theorem algorithm_policy_at_startup:
  assumes "axios_get (metadataReply w) = Inr metadata"
    and "getProp (Some metadata) ''id_token_signing_alg_values_supported'' = Inr (Some (JArr algs))"
    and "\<not> missing (gcpProjectId cfg)" and "\<not> missing (identityServiceUrl cfg)"
  shows "(JStr ''RS256'' \<in> set algs \<longrightarrow>
            checkAlgorithmPolicy (Some (JArr algs)) = Inr ()
            \<and> startServer cfg w =
                (case connectAndListen cfg w metadata of
                   Inl e \<Rightarrow> Exit 1 e | Inr p \<Rightarrow> Listening p))
       \<and> (JStr ''RS256'' \<notin> set algs \<longrightarrow>
            checkAlgorithmPolicy (Some (JArr algs)) = Inl (UnsupportedAlgorithm algs)
            \<and> startServer cfg w = Exit 1 (UnsupportedAlgorithm algs))"
  using assms by (simp add: startServer_def startServerBody_def requiredAlg_def)

theorem algorithm_policy_at_startup_witness:
  "startServer demoConfig (demoWorld [JStr ''RS256'']) = Listening (PortNumber 3001)
   \<and> startServer demoConfig (demoWorld [JStr ''HS256''])
       = Exit 1 (UnsupportedAlgorithm [JStr ''HS256''])"
  using algorithm_policy_at_startup
      [of "demoWorld [JStr ''RS256'']" "demoMetadata [JStr ''RS256'']" "[JStr ''RS256'']"
          demoConfig]
    algorithm_policy_at_startup
      [of "demoWorld [JStr ''HS256'']" "demoMetadata [JStr ''HS256'']" "[JStr ''HS256'']"
          demoConfig]
  by (simp add: demoWorld_def demoMetadata_def demoConfig_def connectAndListen_def)

section \<open>The Auth Gate: who gets an Identity\<close>

lemma userFromPayload_Inr:
  "userFromPayload payload = Inr u \<Longrightarrow>
     (\<exists>s. getProp (Some payload) ''sub'' = Inr (Some (JStr s)) \<and> id' u = Some (JStr s))
     \<and> getProp (Some payload) ''email'' = Inr (email u) \<and> truthy (email u)
     \<and> getProp (Some payload) ''alias'' = Inr (alias' u) \<and> truthy (alias' u)"
  apply (auto simp: userFromPayload_def split: sum.splits if_splits)
  subgoal for sub by (cases sub rule: isString.cases) auto
  done

lemma jwtUserFromPayload_Inr:
  "jwtUserFromPayload payload = Inr u \<Longrightarrow>
     (\<exists>s. getProp (Some payload) ''sub'' = Inr (Some (JStr s)) \<and> id' u = Some (JStr s))
     \<and> getProp (Some payload) ''email'' = Inr (email u)
     \<and> getProp (Some payload) ''alias'' = Inr (alias' u)"
  apply (auto simp: jwtUserFromPayload_def split: sum.splits if_splits)
  subgoal for sub by (cases sub rule: isString.cases) auto
  done

lemma createAuthMiddleware_Next:
  "createAuthMiddleware jv req = (Next u, called) \<Longrightarrow>
     \<exists>t payload. jv t = Inr payload \<and> userFromPayload payload = Inr u
        \<and> called = [VerifierCalled t]"
  by (auto simp: createAuthMiddleware_def split: option.splits if_splits sum.splits)

lemma authMiddleware_Next:
  "authMiddleware cfg v req = (Next u, called) \<Longrightarrow>
     \<exists>t secret payload. jwtSecret cfg = Some secret \<and> v t secret = Inr payload
        \<and> jwtUserFromPayload payload = Inr u \<and> called = [VerifierCalled t]"
  by (auto simp: authMiddleware_def split: option.splits if_splits sum.splits)



lemmas gate_eval = createAuthMiddleware_def authMiddleware_def verdicts_def jwtVerdicts_def
  demoVerdicts_def demoPayload_def bearer_def startsWith_def index_def userFromPayload_def
  jwtUserFromPayload_def demoJwtConfig_def

text \<open>
  C1, as the spec states it: verification fails, producing no Identity, if the email or
  the alias is of the wrong type. A token whose payload carries the number 42 as its email
  passes createAuthMiddleware, and the Identity attached to the request holds that number.
\<close>

theorem wrong_type_email_counterexample:
  "createAuthMiddleware
     (verdicts [(''abc'', Inr (JObj [(''sub'', JStr ''u1''), (''email'', JNum 42),
                                     (''alias'', JStr ''A'')]))])
     (bearer ''abc'')
   = (Next \<lparr> id' = Some (JStr ''u1''), email = Some (JNum 42), alias' = Some (JStr ''A'') \<rparr>,
      [VerifierCalled ''abc''])
   \<and> \<not> isString (Some (JNum 42))"
  by (simp add: gate_eval)

text \<open>
  C1, amended: either middleware produces an Identity only from a payload the verifier
  returned and whose \<open>sub\<close> claim is a string, which becomes the Identity's id; so a token
  whose payload lacks the subject claim never produces an Identity. createAuthMiddleware
  also fails unless email and alias are present and truthy (not \<open>null\<close>, \<open>false\<close>, 0 or
  the empty string); it does not test their type.
\<close>

theorem identity_requires_claims:
  "(createAuthMiddleware jv req = (Next u, called) \<longrightarrow>
      (\<exists>t payload s. called = [VerifierCalled t] \<and> jv t = Inr payload
         \<and> getProp (Some payload) ''sub'' = Inr (Some (JStr s)) \<and> id' u = Some (JStr s)
         \<and> getProp (Some payload) ''email'' = Inr (email u) \<and> truthy (email u)
         \<and> getProp (Some payload) ''alias'' = Inr (alias' u) \<and> truthy (alias' u)))
   \<and> (authMiddleware cfg v req = (Next u, called) \<longrightarrow>
      (\<exists>t secret payload s. called = [VerifierCalled t] \<and> jwtSecret cfg = Some secret
         \<and> v t secret = Inr payload
         \<and> getProp (Some payload) ''sub'' = Inr (Some (JStr s)) \<and> id' u = Some (JStr s)))"
proof (intro conjI impI)
  assume "createAuthMiddleware jv req = (Next u, called)"
  then obtain t payload where
    "jv t = Inr payload" "userFromPayload payload = Inr u" "called = [VerifierCalled t]"
    using createAuthMiddleware_Next by blast
  with userFromPayload_Inr [of payload u]
  show "\<exists>t payload s. called = [VerifierCalled t] \<and> jv t = Inr payload
         \<and> getProp (Some payload) ''sub'' = Inr (Some (JStr s)) \<and> id' u = Some (JStr s)
         \<and> getProp (Some payload) ''email'' = Inr (email u) \<and> truthy (email u)
         \<and> getProp (Some payload) ''alias'' = Inr (alias' u) \<and> truthy (alias' u)"
    by blast
next
  assume "authMiddleware cfg v req = (Next u, called)"
  then obtain t secret payload where
    "jwtSecret cfg = Some secret" "v t secret = Inr payload"
    "jwtUserFromPayload payload = Inr u" "called = [VerifierCalled t]"
    using authMiddleware_Next by blast
  with jwtUserFromPayload_Inr [of payload u]
  show "\<exists>t secret payload s. called = [VerifierCalled t] \<and> jwtSecret cfg = Some secret
         \<and> v t secret = Inr payload
         \<and> getProp (Some payload) ''sub'' = Inr (Some (JStr s)) \<and> id' u = Some (JStr s)"
    by blast
qed

theorem identity_requires_claims_witness:
  "createAuthMiddleware (verdicts demoVerdicts) (bearer ''good'')
     = (Next \<lparr> id' = Some (JStr ''u1''), email = Some (JStr ''me@example.com''),
               alias' = Some (JStr ''Me'') \<rparr>, [VerifierCalled ''good''])
   \<and> (\<exists>t payload s. verdicts demoVerdicts t = Inr payload
         \<and> getProp (Some payload) ''sub'' = Inr (Some (JStr s))
         \<and> truthy (Some (JStr ''me@example.com'')) \<and> truthy (Some (JStr ''Me'')))
   \<and> authMiddleware demoJwtConfig (jwtVerdicts demoVerdicts) (bearer ''good'')
     = (Next \<lparr> id' = Some (JStr ''u1''), email = Some (JStr ''me@example.com''),
               alias' = Some (JStr ''Me'') \<rparr>, [VerifierCalled ''good''])
   \<and> (\<exists>t secret payload s. jwtVerdicts demoVerdicts t secret = Inr payload
         \<and> getProp (Some payload) ''sub'' = Inr (Some (JStr s)))"
proof -
  have a: "createAuthMiddleware (verdicts demoVerdicts) (bearer ''good'')
     = (Next \<lparr> id' = Some (JStr ''u1''), email = Some (JStr ''me@example.com''),
               alias' = Some (JStr ''Me'') \<rparr>, [VerifierCalled ''good''])"
    by (simp add: gate_eval)
  have b: "authMiddleware demoJwtConfig (jwtVerdicts demoVerdicts) (bearer ''good'')
     = (Next \<lparr> id' = Some (JStr ''u1''), email = Some (JStr ''me@example.com''),
               alias' = Some (JStr ''Me'') \<rparr>, [VerifierCalled ''good''])"
    by (simp add: gate_eval)
  from a identity_requires_claims [THEN conjunct1, rule_format, OF a]
    b identity_requires_claims [THEN conjunct2, rule_format, OF b]
  show ?thesis by fastforce
qed

section \<open>The Auth Gate: one answer for every verification failure\<close>



section \<open>The Auth Gate: requests without a usable bearer token\<close>

text \<open>
  The token the code extracts from a header \<open>Bearer \<close> followed by \<open>rest\<close> is the part
  of \<open>rest\<close> before its first space. A header is malformed when it is absent, does not
  start with \<open>Bearer \<close>, or yields the empty token (which covers \<open>Bearer \<close> followed by
  nothing).
\<close>

lemma split_unfold:
  "split c s = takeWhile (\<lambda>x. x \<noteq> c) s #
     (case dropWhile (\<lambda>x. x \<noteq> c) s of [] \<Rightarrow> [] | y # r \<Rightarrow> split c r)"
  by (induction s) (auto split: list.splits)

lemma startsWith_iff: "startsWith h p \<longleftrightarrow> (\<exists>rest. h = p @ rest)"
  unfolding startsWith_def
  by (metis append_eq_conv_conj append_take_drop_id)

lemma bearer_token:
  "index (split CHR '' '' (''Bearer '' @ rest)) 1 = Some (takeWhile (\<lambda>x. x \<noteq> CHR '' '') rest)"
  by (simp add: index_def split_unfold [of _ rest])

lemma createAuthMiddleware_malformed:
  assumes "authorization req = None
     \<or> (\<exists>h. authorization req = Some h
          \<and> \<not> (\<exists>rest. h = ''Bearer '' @ rest \<and> takeWhile (\<lambda>x. x \<noteq> CHR '' '') rest \<noteq> []))"
  shows "\<exists>msg. createAuthMiddleware jv req = (Answer (Response 401 (ErrorBody msg)), [])"
proof (cases "authorization req")
  case None
  then show ?thesis by (simp add: createAuthMiddleware_def unauthorized_def)
next
  case (Some h)
  show ?thesis
  proof (cases "startsWith h ''Bearer ''")
    case False
    with Some show ?thesis by (simp add: createAuthMiddleware_def unauthorized_def)
  next
    case True
    then obtain rest where h: "h = ''Bearer '' @ rest" unfolding startsWith_iff by blast
    with assms Some have "takeWhile (\<lambda>x. x \<noteq> CHR '' '') rest = []" by auto
    with Some True h bearer_token [of rest] show ?thesis
      by (auto simp add: createAuthMiddleware_def unauthorized_def)
  qed
qed

lemma routes_malformed:
  assumes "authorization req = None
     \<or> (\<exists>h. authorization req = Some h
          \<and> \<not> (\<exists>rest. h = ''Bearer '' @ rest \<and> takeWhile (\<lambda>x. x \<noteq> CHR '' '') rest \<noteq> []))"
  shows "\<exists>msg. GET_address_book sv db req = (Answered (Response 401 (ErrorBody msg)), db, [])
     \<and> POST_address_book_contacts cfg sv db req = (Answered (Response 401 (ErrorBody msg)), db, [])"
  using createAuthMiddleware_malformed [OF assms, of "jwtVerify sv"]
  by (auto simp: GET_address_book_def POST_address_book_contacts_def)

text \<open>
  C2: a request whose Authorization header is absent or is not \<open>Bearer \<close> followed by a
  non-empty token is answered 401 without the verifier being invoked and without a store or
  provider call. createAuthMiddleware and the routes behind it do exactly that (the two
  lemmas above). authMiddleware does not: its test \<open>token == undefined\<close> lets the empty
  token through, so for the headers \<open>Bearer \<close> and \<open>Bearer  abc\<close> (two spaces) it calls
  \<open>jwt.verify\<close> on the empty string, whatever the verifier then answers.
\<close>

theorem authMiddleware_verifies_empty_token:
  "list_ex isVerifierCall (snd (authMiddleware demoJwtConfig v (bearer '''')))
   \<and> list_ex isVerifierCall
        (snd (authMiddleware demoJwtConfig v \<lparr> authorization = Some ''Bearer  abc'', body = b \<rparr>))
   \<and> authMiddleware demoJwtConfig (jwtVerdicts demoVerdicts) (bearer '''')
       = (Answer invalidOrExpired,
          [VerifierCalled '''', ConsoleError (VerificationError JWTInvalid)])
   \<and> createAuthMiddleware (verdicts demoVerdicts) (bearer '''')
       = (Answer (unauthorized ''Unauthorized: Token is missing.''), [])"
  by (simp add: gate_eval split: sum.splits)

section \<open>The contact store\<close>

lemma validateResourcePath_Inr:
  "validateResourcePath v = Inr s \<longleftrightarrow> v = Some (JStr s) \<and> s \<noteq> [] \<and> \<not> includes_str s ''//''"
  by (cases v rule: validateResourcePath.cases) auto

lemma docRef_Inr:
  "docRef coll v = Inr p \<longleftrightarrow>
     (\<exists>s. v = Some (JStr s) \<and> s \<noteq> [] \<and> \<not> includes_str s ''//''
        \<and> p = coll @ pathSegments s \<and> p \<noteq> [] \<and> even (length p))"
  by (auto simp: docRef_def Let_def validateResourcePath_Inr split: sum.splits)

lemma pathSegments_plain:
  assumes "CHR ''/'' \<notin> set s" and "s \<noteq> []"
  shows "pathSegments s = [s]"
proof -
  from assms(1) have t: "takeWhile (\<lambda>x. x \<noteq> CHR ''/'') s = s"
    by (induction s) auto
  from assms(1) have d: "dropWhile (\<lambda>x. x \<noteq> CHR ''/'') s = []"
    by (induction s) auto
  have "split CHR ''/'' s = [s]"
    by (subst split_unfold) (simp only: t d list.case)
  with assms(2) show ?thesis by (simp add: pathSegments_def)
qed

lemma definedFields_three:
  "definedFields [(k1, a), (k2, b), (k3, c)] = Inr d \<longleftrightarrow>
     (\<exists>x y z. a = Some x \<and> b = Some y \<and> c = Some z \<and> d = [(k1, x), (k2, y), (k3, z)])"
  by (cases a; cases b; cases c) auto

lemma setDoc_Inr:
  "setDoc db p data = Inr db' \<longleftrightarrow>
     (\<exists>d. definedFields data = Inr d \<and> \<not> writeFails db p d
        \<and> db' = db\<lparr>documents := AList.update p d (documents db)\<rparr>)"
  by (auto simp: setDoc_def split: sum.splits)

lemma addContactToAddressBook_Inr:
  "addContactToAddressBook db ownerId c = Inr db' \<longleftrightarrow>
     (\<exists>owner user k p a e. ownerId = Some (JStr owner)
        \<and> docRef (collectionRef [] ''authorized_users'') ownerId = Inr user
        \<and> getProp (Some c) ''id'' = Inr (Some (JStr k))
        \<and> docRef (collectionRef user ''address_book'') (Some (JStr k)) = Inr p
        \<and> getProp (Some c) ''alias'' = Inr (Some a)
        \<and> getProp (Some c) ''email'' = Inr (Some e)
        \<and> \<not> writeFails db p [(''alias'', a), (''email'', e), (''userId'', JStr k)]
        \<and> db' = db\<lparr>documents :=
                 AList.update p [(''alias'', a), (''email'', e), (''userId'', JStr k)]
                   (documents db)\<rparr>)"
  (is "?l \<longleftrightarrow> ?r")
proof
  assume ?l
  then show ?r
    unfolding addContactToAddressBook_def
    by (auto simp: setDoc_Inr definedFields_three split: sum.splits)
      (auto simp: docRef_Inr)
next
  assume ?r
  then show ?l
    unfolding addContactToAddressBook_def
    by (auto simp: setDoc_Inr definedFields_three split: sum.splits)
qed

lemma filter_update_single:
  "length (filter (\<lambda>q. fst q = k) al) \<le> 1 \<Longrightarrow>
     filter (\<lambda>q. fst q = k) (AList.update k v al) = [(k, v)]"
proof (induction al)
  case Nil
  then show ?case by simp
next
  case (Cons q al)
  then show ?case by (auto split: if_splits)
qed

lemma update_member: "(k, v) \<in> set (AList.update k v al)"
  by (induction al) auto

lemma set_update_subset: "set (AList.update k v al) \<subseteq> insert (k, v) (set al)"
  by (induction al) auto


lemmas store_eval = addContactToAddressBook_def getUserAddressBook_def setDoc_def docRef_def
  collectionRef_def pathSegments_def docsIn_def startsWith_def toContact_def emptyStore_def
  demoContact_def demoDocument_def demoOwner_def demoPath_def slashContact_def
  slashDocument_def slashPath_def

text \<open>
  C5: adding a contact and then adding a contact with the same identifier, for the same
  owner, leaves the store in the state that the second add alone produces. Both writes go
  to the one path the identifier resolves to (for identifiers without a slash, the
  document of that name in the owner's address book), and in a store that held at most
  one document at that path there is then exactly one document there, with the field
  values of the latest call; when the path lies directly in the address book, the
  collection lists exactly that one document under it.
\<close>

theorem add_contact_idempotent:
  assumes "getProp (Some c') ''id'' = getProp (Some c) ''id''"
    and "addContactToAddressBook db ownerId c = Inr db1"
    and "addContactToAddressBook db1 ownerId c' = Inr db2"
  shows "addContactToAddressBook db ownerId c' = Inr db2
     \<and> (\<exists>owner user k p a e. ownerId = Some (JStr owner)
          \<and> getProp (Some c') ''id'' = Inr (Some (JStr k))
          \<and> getProp (Some c') ''alias'' = Inr (Some a)
          \<and> getProp (Some c') ''email'' = Inr (Some e)
          \<and> docRef (collectionRef [] ''authorized_users'') ownerId = Inr user
          \<and> docRef (collectionRef user ''address_book'') (Some (JStr k)) = Inr p
          \<and> (CHR ''/'' \<notin> set owner \<and> CHR ''/'' \<notin> set k \<longrightarrow>
               p = [''authorized_users'', owner, ''address_book'', k])
          \<and> (length (filter (\<lambda>doc. fst doc = p) (documents db)) \<le> 1 \<longrightarrow>
               filter (\<lambda>doc. fst doc = p) (documents db2)
                 = [(p, [(''alias'', a), (''email'', e), (''userId'', JStr k)])]
               \<and> (length p = Suc (length (collectionRef user ''address_book'')) \<longrightarrow>
                    filter (\<lambda>doc. fst doc = p)
                      (docsIn db2 (collectionRef user ''address_book''))
                      = [(p, [(''alias'', a), (''email'', e), (''userId'', JStr k)])])))"
proof -
  from assms(2) obtain owner user k p a e where
    1: "ownerId = Some (JStr owner)"
       "docRef (collectionRef [] ''authorized_users'') ownerId = Inr user"
       "getProp (Some c) ''id'' = Inr (Some (JStr k))"
       "docRef (collectionRef user ''address_book'') (Some (JStr k)) = Inr p"
    and db1: "db1 = db\<lparr>documents :=
                 AList.update p [(''alias'', a), (''email'', e), (''userId'', JStr k)]
                   (documents db)\<rparr>"
    unfolding addContactToAddressBook_Inr by blast
  from assms(3) assms(1) 1 obtain a' e' where
    2: "getProp (Some c') ''alias'' = Inr (Some a')" "getProp (Some c') ''email'' = Inr (Some e')"
       "\<not> writeFails db1 p [(''alias'', a'), (''email'', e'), (''userId'', JStr k)]"
    and db2: "db2 = db1\<lparr>documents :=
                 AList.update p [(''alias'', a'), (''email'', e'), (''userId'', JStr k)]
                   (documents db1)\<rparr>"
    unfolding addContactToAddressBook_Inr by auto
  let ?d = "[(''alias'', a'), (''email'', e'), (''userId'', JStr k)]"
  have eq: "db2 = db\<lparr>documents := AList.update p ?d (documents db)\<rparr>"
    unfolding db2 by (simp add: db1)
  have wf: "\<not> writeFails db p ?d"
    using 2(3) by (simp add: db1)
  have first: "addContactToAddressBook db ownerId c' = Inr db2"
    unfolding addContactToAddressBook_Inr using 1 2 assms(1) wf eq by auto
  have plain: "p = [''authorized_users'', owner, ''address_book'', k]"
    if "CHR ''/'' \<notin> set owner" "CHR ''/'' \<notin> set k"
  proof -
    from 1(1,2) have "owner \<noteq> []" "user = [''authorized_users''] @ pathSegments owner"
      by (auto simp: docRef_Inr collectionRef_def)
    with that(1) have u: "user = [''authorized_users'', owner]"
      by (simp add: pathSegments_plain)
    from 1(4) have "k \<noteq> []" "p = user @ [''address_book''] @ pathSegments k"
      by (auto simp: docRef_Inr collectionRef_def)
    with that(2) u show ?thesis by (simp add: pathSegments_plain)
  qed
  have one: "filter (\<lambda>doc. fst doc = p) (documents db2) = [(p, ?d)]"
    if "length (filter (\<lambda>doc. fst doc = p) (documents db)) \<le> 1"
    using that by (simp add: eq filter_update_single)
  have listed: "filter (\<lambda>doc. fst doc = p) (docsIn db2 (collectionRef user ''address_book''))
        = [(p, ?d)]"
    if "length (filter (\<lambda>doc. fst doc = p) (documents db)) \<le> 1"
      "length p = Suc (length (collectionRef user ''address_book''))"
  proof -
    from 1(4) have t: "take (length (collectionRef user ''address_book'')) p
        = collectionRef user ''address_book''"
      by (auto simp: docRef_Inr)
    have "filter (\<lambda>doc. fst doc = p) (docsIn db2 (collectionRef user ''address_book''))
        = filter (\<lambda>doc. length (fst doc) = Suc (length (collectionRef user ''address_book''))
              \<and> take (length (collectionRef user ''address_book'')) (fst doc)
                  = collectionRef user ''address_book'')
            (filter (\<lambda>doc. fst doc = p) (documents db2))"
      unfolding docsIn_def filter_filter by (rule filter_cong) auto
    with one [OF that(1)] that(2) t show ?thesis by simp
  qed
  from first plain one listed 1 2 assms(1) show ?thesis by auto
qed

theorem add_contact_idempotent_witness:
  "addContactToAddressBook emptyStore (Some (JStr ''u1'')) (demoContact ''A'')
     = Inr (emptyStore\<lparr>documents := [(demoPath, demoDocument ''A'')]\<rparr>)
   \<and> addContactToAddressBook (emptyStore\<lparr>documents := [(demoPath, demoDocument ''A'')]\<rparr>)
       (Some (JStr ''u1'')) (demoContact ''Ann'')
     = Inr (emptyStore\<lparr>documents := [(demoPath, demoDocument ''Ann'')]\<rparr>)
   \<and> addContactToAddressBook emptyStore (Some (JStr ''u1'')) (demoContact ''Ann'')
     = Inr (emptyStore\<lparr>documents := [(demoPath, demoDocument ''Ann'')]\<rparr>)
   \<and> documents emptyStore = []"
proof -
  have 1: "getProp (Some (demoContact ''Ann'')) ''id'' = getProp (Some (demoContact ''A'')) ''id''"
    by (simp add: demoContact_def)
  have 2: "addContactToAddressBook emptyStore (Some (JStr ''u1'')) (demoContact ''A'')
     = Inr (emptyStore\<lparr>documents := [(demoPath, demoDocument ''A'')]\<rparr>)"
    by (simp add: store_eval)
  have 3: "addContactToAddressBook (emptyStore\<lparr>documents := [(demoPath, demoDocument ''A'')]\<rparr>)
       (Some (JStr ''u1'')) (demoContact ''Ann'')
     = Inr (emptyStore\<lparr>documents := [(demoPath, demoDocument ''Ann'')]\<rparr>)"
    by (simp add: store_eval)
  have 4: "documents emptyStore = []"
    by (simp add: emptyStore_def)
  from 2 3 4 add_contact_idempotent [OF 1 2 3] show ?thesis by blast
qed

section \<open>Adding a contact: failures\<close>

lemma addContactToAddressBook_Inl:
  "addContactToAddressBook db ownerId c = Inl e \<Longrightarrow> e = TypeError \<or> e = FirestoreError"
proof -
  have v: "\<And>v e. validateResourcePath v = Inl e \<Longrightarrow> e = FirestoreError"
    subgoal for v e by (cases v rule: validateResourcePath.cases) (auto split: if_splits)
    done
  have d: "\<And>coll v e. docRef coll v = Inl e \<Longrightarrow> e = FirestoreError"
    by (auto simp: docRef_def Let_def split: sum.splits if_splits dest: v)
  have g: "\<And>v k e. getProp v k = Inl e \<Longrightarrow> e = TypeError"
    subgoal for v k e by (cases "(v, k)" rule: getProp.cases) auto
    done
  have f: "\<And>xs e. definedFields xs = Inl e \<Longrightarrow> e = FirestoreError"
    subgoal for xs e by (induction xs rule: definedFields.induct) (auto split: sum.splits)
    done
  assume "addContactToAddressBook db ownerId c = Inl e"
  then show ?thesis
    unfolding addContactToAddressBook_def setDoc_def
    by (auto split: sum.splits if_splits dest: d g f)
qed

lemma addContactToAddressBook_not404:
  "addContactToAddressBook db ownerId c = Inl e \<Longrightarrow> \<not> isAxios404 e"
  by (auto dest: addContactToAddressBook_Inl)

lemma lookupAndStore_cases:
  "lookupAndStore db owner reply called =
     (case axios_get reply of
        Inl e \<Rightarrow> if isAxios404 e
                 then (Answered (Response 404 (ErrorBody ''User with that email not found.'')), db, called)
                 else (Answered (Response 500
                         (ErrorBody ''An internal error occurred while adding the contact.'')),
                       db, called @ [ConsoleError e])
      | Inr c \<Rightarrow>
          (case addContactToAddressBook db (id' owner) c of
             Inl e \<Rightarrow> (Answered (Response 500
                          (ErrorBody ''An internal error occurred while adding the contact.'')),
                        db, called @ [StoreWrite (id' owner) c, ConsoleError e])
           | Inr db' \<Rightarrow> (Answered (Response 201 (Echo c)), db',
                          called @ [StoreWrite (id' owner) c])))"
  by (auto simp: lookupAndStore_def addContactFailed_def addContactToAddressBook_not404
      split: sum.splits)

lemmas route_eval = POST_address_book_contacts_def GET_address_book_def addContact_def
  jwtAddContact_def getAddressBook_def demoServices_def replies_def postBody_def
  postEmail_def demoConfig_def

text \<open>
  C7: in the add-contact operation, once the lookup is made, a provider answer of 404
  gives the outward response 404; no answer at all, or any other status outside 200..299,
  gives 500; a failing store write gives 500. The lookup is made once and the store write
  at most once: nothing is retried. Unless the response is 201 the store is unchanged.
  This holds for the handler of either variant.
\<close>

theorem add_contact_failures:
  assumes "getProp (body req) ''email'' = Inr (Some em)" and "truthy (Some em)"
    and "r = addContact cfg sv db owner req \<or> r = jwtAddContact (lookupByEmail sv) db owner req"
  shows "(\<forall>d. lookupByEmail sv em = HttpReply 404 d \<longrightarrow>
            fst r = Answered (Response 404 (ErrorBody ''User with that email not found.'')))
     \<and> (lookupByEmail sv em = NoReply
          \<or> (\<exists>st d. lookupByEmail sv em = HttpReply st d \<and> (st < 200 \<or> 300 \<le> st) \<and> st \<noteq> 404)
        \<longrightarrow> fst r = Answered (Response 500
                  (ErrorBody ''An internal error occurred while adding the contact.'')))
     \<and> (\<forall>c e. axios_get (lookupByEmail sv em) = Inr c
            \<and> addContactToAddressBook db (id' owner) c = Inl e
        \<longrightarrow> fst r = Answered (Response 500
                  (ErrorBody ''An internal error occurred while adding the contact.'')))
     \<and> ((\<forall>b. fst r \<noteq> Answered (Response 201 b)) \<longrightarrow> fst (snd r) = db)
     \<and> length (filter isProviderCall (snd (snd r))) = 1
     \<and> length (filter isStoreCall (snd (snd r))) \<le> 1"
proof -
  from assms obtain cred where
    r: "r = lookupAndStore db owner (lookupByEmail sv em) [ProviderLookup em cred]"
    by (auto simp: addContact_def jwtAddContact_def)
  show ?thesis
    unfolding r lookupAndStore_cases
    by (cases "lookupByEmail sv em") (auto split: sum.splits)
qed

theorem add_contact_failures_witness:
  "fst (addContact demoConfig demoServices emptyStore demoOwner (postEmail ''missing@example.com''))
     = Answered (Response 404 (ErrorBody ''User with that email not found.''))
   \<and> fst (addContact demoConfig demoServices emptyStore demoOwner (postEmail ''down@example.com''))
     = Answered (Response 500 (ErrorBody ''An internal error occurred while adding the contact.''))
   \<and> fst (jwtAddContact (lookupByEmail demoServices) emptyStore demoOwner
            (postEmail ''nobody@example.com''))
     = Answered (Response 500 (ErrorBody ''An internal error occurred while adding the contact.''))
   \<and> addContactToAddressBook emptyStore (id' demoOwner)
        (JObj [(''id'', JStr ''u3''), (''email'', JStr ''partial@example.com'')])
     = Inl FirestoreError
   \<and> addContact demoConfig demoServices emptyStore demoOwner (postEmail ''partial@example.com'')
     = (Answered (Response 500 (ErrorBody ''An internal error occurred while adding the contact.'')),
        emptyStore,
        [ProviderLookup (JStr ''partial@example.com'') (InternalApiKey (Some ''k1'')),
         StoreWrite (Some (JStr ''u1''))
           (JObj [(''id'', JStr ''u3''), (''email'', JStr ''partial@example.com'')]),
         ConsoleError FirestoreError])"
proof -
  have e: "\<And>x. getProp (body (postEmail x)) ''email'' = Inr (Some (JStr x))"
    by (simp add: postEmail_def postBody_def)
  have t: "truthy (Some (JStr ''missing@example.com''))"
    "truthy (Some (JStr ''down@example.com''))" "truthy (Some (JStr ''nobody@example.com''))"
    "truthy (Some (JStr ''partial@example.com''))"
    by simp_all
  have l: "lookupByEmail demoServices (JStr ''missing@example.com'') = HttpReply 404 (JObj [])"
    "lookupByEmail demoServices (JStr ''down@example.com'') = HttpReply 503 JNull"
    "lookupByEmail demoServices (JStr ''nobody@example.com'') = NoReply"
    "axios_get (lookupByEmail demoServices (JStr ''partial@example.com''))
       = Inr (JObj [(''id'', JStr ''u3''), (''email'', JStr ''partial@example.com'')])"
    by (simp_all add: demoServices_def replies_def)
  have w: "addContactToAddressBook emptyStore (id' demoOwner)
        (JObj [(''id'', JStr ''u3''), (''email'', JStr ''partial@example.com'')])
     = Inl FirestoreError"
    by (simp add: store_eval)
  have p: "addContact demoConfig demoServices emptyStore demoOwner
        (postEmail ''partial@example.com'')
     = (Answered (Response 500 (ErrorBody ''An internal error occurred while adding the contact.'')),
        emptyStore,
        [ProviderLookup (JStr ''partial@example.com'') (InternalApiKey (Some ''k1'')),
         StoreWrite (Some (JStr ''u1''))
           (JObj [(''id'', JStr ''u3''), (''email'', JStr ''partial@example.com'')]),
         ConsoleError FirestoreError])"
    by (simp add: route_eval lookupAndStore_def addContactFailed_def store_eval)
  have r1: "addContact demoConfig demoServices emptyStore demoOwner
                (postEmail ''missing@example.com'')
              = addContact demoConfig demoServices emptyStore demoOwner
                (postEmail ''missing@example.com'')
            \<or> addContact demoConfig demoServices emptyStore demoOwner
                (postEmail ''missing@example.com'')
              = jwtAddContact (lookupByEmail demoServices) emptyStore demoOwner
                (postEmail ''missing@example.com'')"
    by simp
  have r2: "addContact demoConfig demoServices emptyStore demoOwner
                (postEmail ''down@example.com'')
              = addContact demoConfig demoServices emptyStore demoOwner
                (postEmail ''down@example.com'')
            \<or> addContact demoConfig demoServices emptyStore demoOwner
                (postEmail ''down@example.com'')
              = jwtAddContact (lookupByEmail demoServices) emptyStore demoOwner
                (postEmail ''down@example.com'')"
    by simp
  have r3: "jwtAddContact (lookupByEmail demoServices) emptyStore demoOwner
                (postEmail ''nobody@example.com'')
              = addContact demoConfig demoServices emptyStore demoOwner
                (postEmail ''nobody@example.com'')
            \<or> jwtAddContact (lookupByEmail demoServices) emptyStore demoOwner
                (postEmail ''nobody@example.com'')
              = jwtAddContact (lookupByEmail demoServices) emptyStore demoOwner
                (postEmail ''nobody@example.com'')"
    by simp
  have r4: "addContact demoConfig demoServices emptyStore demoOwner
                (postEmail ''partial@example.com'')
              = addContact demoConfig demoServices emptyStore demoOwner
                (postEmail ''partial@example.com'')
            \<or> addContact demoConfig demoServices emptyStore demoOwner
                (postEmail ''partial@example.com'')
              = jwtAddContact (lookupByEmail demoServices) emptyStore demoOwner
                (postEmail ''partial@example.com'')"
    by simp
  from l w p add_contact_failures [OF e t(1) r1] add_contact_failures [OF e t(2) r2]
    add_contact_failures [OF e t(3) r3] add_contact_failures [OF e t(4) r4]
  show ?thesis by simp
qed




section \<open>Adding a contact and reading it back\<close>

lemma createAuthMiddleware_header:
  "authorization req' = authorization req \<Longrightarrow>
     createAuthMiddleware jv req' = createAuthMiddleware jv req"
  by (simp add: createAuthMiddleware_def)

lemma POST_201:
  assumes "POST_address_book_contacts cfg sv db req = (Answered (Response 201 b), db', called)"
  shows "\<exists>owner called0 em c. createAuthMiddleware (jwtVerify sv) req = (Next owner, called0)
     \<and> getProp (body req) ''email'' = Inr (Some em) \<and> truthy (Some em)
     \<and> axios_get (lookupByEmail sv em) = Inr c \<and> b = Echo c
     \<and> addContactToAddressBook db (id' owner) c = Inr db'"
proof -
  obtain g called0 where g: "createAuthMiddleware (jwtVerify sv) req = (g, called0)"
    by (cases "createAuthMiddleware (jwtVerify sv) req")
  show ?thesis
  proof (cases g)
    case (Next owner)
    with g assms obtain called1 where
      a: "addContact cfg sv db owner req = (Answered (Response 201 b), db', called1)"
      by (auto simp: POST_address_book_contacts_def split: prod.splits)
    then obtain em where em: "getProp (body req) ''email'' = Inr (Some em)" "truthy (Some em)"
      and l: "lookupAndStore db owner (lookupByEmail sv em)
                [ProviderLookup em (InternalApiKey (internalApiKey cfg))]
              = (Answered (Response 201 b), db', called1)"
      by (auto simp: addContact_def split: sum.splits option.splits if_splits)
    from l obtain c where "axios_get (lookupByEmail sv em) = Inr c" "b = Echo c"
      "addContactToAddressBook db (id' owner) c = Inr db'"
      unfolding lookupAndStore_cases by (auto split: sum.splits if_splits)
    with g Next em show ?thesis by blast
  next
    case (Answer r)
    with g assms show ?thesis
      unfolding POST_address_book_contacts_def createAuthMiddleware_def
      by (auto simp: unauthorized_def invalidOrExpired_def split: option.splits if_splits sum.splits)
  next
    case (Throws e)
    with g assms show ?thesis by (simp add: POST_address_book_contacts_def)
  qed
qed

text \<open>
  What does hold of the round trip: when the id of the looked-up record is a single path
  segment, the document lies directly in the caller's address book and the following GET
  lists it.
\<close>

lemma roundtrip_single_segment:
  assumes "POST_address_book_contacts cfg sv db req = (Answered (Response 201 b), db', called)"
  shows "\<exists>owner user em c k e a.
       fst (createAuthMiddleware (jwtVerify sv) req) = Next owner
     \<and> docRef (collectionRef [] ''authorized_users'') (id' owner) = Inr user
     \<and> getProp (body req) ''email'' = Inr (Some em)
     \<and> axios_get (lookupByEmail sv em) = Inr c \<and> b = Echo c
     \<and> getProp (Some c) ''id'' = Inr (Some (JStr k))
     \<and> getProp (Some c) ''email'' = Inr (Some e)
     \<and> getProp (Some c) ''alias'' = Inr (Some a)
     \<and> (\<forall>req'. authorization req' = authorization req
            \<and> \<not> readFails db' (collectionRef user ''address_book'')
            \<and> length (pathSegments k) = 1 \<longrightarrow>
          (\<exists>cs called'.
             GET_address_book sv db' req'
               = (Answered (Response 200 (ContactList cs)), db', called')
             \<and> \<lparr> id' = Some (JStr k), email = Some e, alias' = Some a \<rparr> \<in> set cs))"
proof -
  from POST_201 [OF assms] obtain owner called0 em c where
    g: "createAuthMiddleware (jwtVerify sv) req = (Next owner, called0)"
    and em: "getProp (body req) ''email'' = Inr (Some em)"
    and c: "axios_get (lookupByEmail sv em) = Inr c" "b = Echo c"
    and w: "addContactToAddressBook db (id' owner) c = Inr db'"
    by blast
  from w obtain user k p a e where
    o: "docRef (collectionRef [] ''authorized_users'') (id' owner) = Inr user"
    and f: "getProp (Some c) ''id'' = Inr (Some (JStr k))"
       "getProp (Some c) ''alias'' = Inr (Some a)" "getProp (Some c) ''email'' = Inr (Some e)"
    and p: "docRef (collectionRef user ''address_book'') (Some (JStr k)) = Inr p"
    and db': "db' = db\<lparr>documents :=
                 AList.update p [(''alias'', a), (''email'', e), (''userId'', JStr k)]
                   (documents db)\<rparr>"
    unfolding addContactToAddressBook_Inr by blast
  let ?d = "[(''alias'', a), (''email'', e), (''userId'', JStr k)]"
  let ?coll = "collectionRef user ''address_book''"
  have mem: "(p, ?d) \<in> set (docsIn db' ?coll)" if "length (pathSegments k) = 1"
  proof -
    from p have "p = ?coll @ pathSegments k" by (auto simp: docRef_Inr)
    with that have "length p = Suc (length ?coll)" "take (length ?coll) p = ?coll" by simp_all
    moreover have "(p, ?d) \<in> set (documents db')" by (simp add: db' update_member)
    ultimately show ?thesis by (simp add: docsIn_def)
  qed
  have get: "\<exists>cs. getUserAddressBook db' (id' owner) = Inr cs
      \<and> \<lparr> id' = Some (JStr k), email = Some e, alias' = Some a \<rparr> \<in> set cs"
    if "\<not> readFails db' ?coll" "length (pathSegments k) = 1"
  proof -
    from mem [OF that(2)] have ne: "docsIn db' ?coll \<noteq> []" by auto
    from mem [OF that(2)] have "toContact (p, ?d) \<in> set (map toContact (docsIn db' ?coll))"
      by (simp add: image_iff) blast
    then have "\<lparr> id' = Some (JStr k), email = Some e, alias' = Some a \<rparr>
        \<in> set (map toContact (docsIn db' ?coll))"
      by (simp add: toContact_def)
    with o that(1) ne show ?thesis by (simp add: getUserAddressBook_def Let_def)
  qed
  have "\<exists>cs called'.
          GET_address_book sv db' req' = (Answered (Response 200 (ContactList cs)), db', called')
          \<and> \<lparr> id' = Some (JStr k), email = Some e, alias' = Some a \<rparr> \<in> set cs"
    if "authorization req' = authorization req" "\<not> readFails db' ?coll"
      "length (pathSegments k) = 1" for req'
    using createAuthMiddleware_header [OF that(1), of "jwtVerify sv"] g get [OF that(2,3)]
    by (auto simp add: GET_address_book_def getAddressBook_def)
  with g em c o f show ?thesis by auto
qed

lemmas route_eval2 = route_eval gate_eval lookupAndStore_def addContactFailed_def store_eval

text \<open>
  C6: a POST answered 201 carries the provider's record as its body, and a following GET
  of the caller's address book includes a contact with the id, email and alias of that
  record. The code does this when the record's id is a single path segment (the lemma
  above). It does not when the id contains slashes: the provider returns the record with
  id \<open>a/b/c\<close> for \<open>s@example.com\<close>, the POST is answered 201 with that record, the
  document is written to \<open>address_book/a/b/c\<close>, and the following GET is answered with
  the empty list.
\<close>

theorem slash_id_lost_on_read:
  "POST_address_book_contacts demoConfig demoServices emptyStore (postEmail ''s@example.com'')
     = (Answered (Response 201 (Echo slashContact)),
        emptyStore\<lparr>documents := [(slashPath, slashDocument)]\<rparr>,
        [VerifierCalled ''good'',
         ProviderLookup (JStr ''s@example.com'') (InternalApiKey (Some ''k1'')),
         StoreWrite (Some (JStr ''u1'')) slashContact])
   \<and> GET_address_book demoServices (emptyStore\<lparr>documents := [(slashPath, slashDocument)]\<rparr>)
        (bearer ''good'')
     = (Answered (Response 200 (ContactList [])),
        emptyStore\<lparr>documents := [(slashPath, slashDocument)]\<rparr>,
        [VerifierCalled ''good'', StoreRead (Some (JStr ''u1''))])"
  by (simp add: route_eval2)

text \<open>The same exchange for the record of \<open>a@example.com\<close>, whose id is \<open>u2\<close>.\<close>

lemma plain_id_read_back:
  "POST_address_book_contacts demoConfig demoServices emptyStore (postEmail ''a@example.com'')
     = (Answered (Response 201 (Echo (demoContact ''A''))),
        emptyStore\<lparr>documents := [(demoPath, demoDocument ''A'')]\<rparr>,
        [VerifierCalled ''good'',
         ProviderLookup (JStr ''a@example.com'') (InternalApiKey (Some ''k1'')),
         StoreWrite (Some (JStr ''u1'')) (demoContact ''A'')])
   \<and> GET_address_book demoServices (emptyStore\<lparr>documents := [(demoPath, demoDocument ''A'')]\<rparr>)
        (bearer ''good'')
     = (Answered (Response 200 (ContactList
          [\<lparr> id' = Some (JStr ''u2''), email = Some (JStr ''a@example.com''),
             alias' = Some (JStr ''A'') \<rparr>])),
        emptyStore\<lparr>documents := [(demoPath, demoDocument ''A'')]\<rparr>,
        [VerifierCalled ''good'', StoreRead (Some (JStr ''u1''))])"
  by (simp add: route_eval2)

section \<open>The contact store: what is persisted\<close>

text \<open>
  What does hold of a written document: it has exactly the fields \<open>alias\<close>, \<open>email\<close>,
  \<open>userId\<close>, its \<open>userId\<close> is the id of the contact, and when that id has no slash it
  is also the last segment of the path, the id of the document. A 201 echoes the
  provider's record whole. getUserAddressBook returns the documents directly in the
  address book, each as a contact whose id is the document's \<open>userId\<close>.
\<close>

lemma written_document:
  assumes "addContactToAddressBook db ownerId c = Inr db'"
  shows "\<exists>user p k a e. docRef (collectionRef [] ''authorized_users'') ownerId = Inr user
          \<and> getProp (Some c) ''id'' = Inr (Some (JStr k))
          \<and> docRef (collectionRef user ''address_book'') (Some (JStr k)) = Inr p
          \<and> map_of (documents db') p
               = Some [(''alias'', a), (''email'', e), (''userId'', JStr k)]
          \<and> (CHR ''/'' \<notin> set k \<longrightarrow> last p = k)"
proof -
  from assms obtain user k p a e where
    1: "docRef (collectionRef [] ''authorized_users'') ownerId = Inr user"
       "getProp (Some c) ''id'' = Inr (Some (JStr k))"
       "docRef (collectionRef user ''address_book'') (Some (JStr k)) = Inr p"
    and db': "db' = db\<lparr>documents :=
                 AList.update p [(''alias'', a), (''email'', e), (''userId'', JStr k)]
                   (documents db)\<rparr>"
    unfolding addContactToAddressBook_Inr by blast
  have m: "map_of (documents db') p = Some [(''alias'', a), (''email'', e), (''userId'', JStr k)]"
    by (simp add: db' update_conv')
  have "last p = k" if "CHR ''/'' \<notin> set k"
  proof -
    from 1(3) have "k \<noteq> []" "p = collectionRef user ''address_book'' @ pathSegments k"
      by (auto simp: docRef_Inr)
    with that show ?thesis by (simp add: pathSegments_plain)
  qed
  with 1 m show ?thesis by blast
qed

lemma created_echoes_record:
  assumes "lookupAndStore db owner reply called = (Answered (Response 201 b), db', called')"
  shows "\<exists>r. axios_get reply = Inr r \<and> b = Echo r
          \<and> addContactToAddressBook db (id' owner) r = Inr db'"
  using assms unfolding lookupAndStore_cases by (auto split: sum.splits if_splits)

lemma listed_contacts:
  assumes "getUserAddressBook db u = Inr cs"
  shows "\<exists>user. docRef (collectionRef [] ''authorized_users'') u = Inr user
          \<and> cs = map toContact (docsIn db (collectionRef user ''address_book''))
          \<and> map id' cs = map (\<lambda>doc. map_of (snd doc) ''userId'')
                             (docsIn db (collectionRef user ''address_book''))"
proof -
  from assms obtain user where u: "docRef (collectionRef [] ''authorized_users'') u = Inr user"
    by (auto simp: getUserAddressBook_def split: sum.splits)
  with assms have cs: "cs = map toContact (docsIn db (collectionRef user ''address_book''))"
    by (auto simp: getUserAddressBook_def Let_def split: if_splits)
  have "map id' cs = map (\<lambda>doc. map_of (snd doc) ''userId'')
                             (docsIn db (collectionRef user ''address_book''))"
    by (simp add: cs toContact_def Let_def)
  with u cs show ?thesis by blast
qed

text \<open>A record with a field the store has no use for: the 201 carries it, the document does not.\<close>

lemma extra_fields_echoed_not_stored:
  "lookupAndStore emptyStore demoOwner (HttpReply 200 demoContactWithPhone) []
     = (Answered (Response 201 (Echo demoContactWithPhone)),
        emptyStore\<lparr>documents := [(demoPath, demoDocument ''A'')]\<rparr>,
        [StoreWrite (Some (JStr ''u1'')) demoContactWithPhone])"
  by (simp add: lookupAndStore_def store_eval demoContactWithPhone_def)

text \<open>
  C10: every document written by addContactToAddressBook has exactly the fields
  \<open>alias\<close>, \<open>email\<close>, \<open>userId\<close>, its \<open>userId\<close> equals the id of the document it is
  stored under, getUserAddressBook lists each stored document with that id, and extra
  fields of the provider's record are echoed but not persisted. The fields, the echo and
  the listing are as stated (the lemmas above). The id is not: for the record with id
  \<open>a/b/c\<close> the write succeeds, the document is stored under the id \<open>c\<close> (in the
  sub-collection \<open>b\<close> of \<open>address_book/a\<close>) with \<open>userId\<close> \<open>a/b/c\<close>, and
  getUserAddressBook does not list it.
\<close>

theorem slash_id_document_id:
  "addContactToAddressBook emptyStore (Some (JStr ''u1'')) slashContact
     = Inr (emptyStore\<lparr>documents := [(slashPath, slashDocument)]\<rparr>)
   \<and> last slashPath = ''c''
   \<and> map_of slashDocument ''userId'' = Some (JStr ''a/b/c'')
   \<and> getUserAddressBook (emptyStore\<lparr>documents := [(slashPath, slashDocument)]\<rparr>)
        (Some (JStr ''u1''))
     = Inr []"
  by (simp add: store_eval)

end
